theory Spec2Isabelle
  imports Complex_Main
begin

unbundle bit_operations_syntax

section \<open>Python values\<close>

text \<open>
  A Python \<open>str\<close> is a sequence of Unicode code points. String literals of the source
  are ASCII and are written \<open>py ''...''\<close>.
\<close>

type_synonym pystr = "nat list"

definition py :: "string \<Rightarrow> pystr" where
  "py s = map of_char s"

text \<open>
  The values that travel through the application: JSON bodies, query parameters, flag
  values and the engine's reason. A \<open>dict\<close> is an association list in insertion order,
  looked up with \<open>map_of\<close>; its keys are strings. A \<open>float\<close> is represented by the
  rational number it denotes.
\<close>

datatype pyval =
    PNone
  | PBool bool
  | PInt int
  | PFloat rat
  | PStr pystr
  | PList "pyval list"
  | PDict "(pystr \<times> pyval) list"

text \<open>Truth value testing (\<open>if x:\<close>, \<open>not x\<close>).\<close>

fun truthy :: "pyval \<Rightarrow> bool" where
  "truthy PNone = False"
| "truthy (PBool b) = b"
| "truthy (PInt i) = (i \<noteq> 0)"
| "truthy (PFloat q) = (q \<noteq> 0)"
| "truthy (PStr s) = (s \<noteq> [])"
| "truthy (PList xs) = (xs \<noteq> [])"
| "truthy (PDict kvs) = (kvs \<noteq> [])"

text \<open>\<open>type(x).__name__\<close>\<close>

fun type_name :: "pyval \<Rightarrow> pystr" where
  "type_name PNone = py ''NoneType''"
| "type_name (PBool b) = py ''bool''"
| "type_name (PInt i) = py ''int''"
| "type_name (PFloat q) = py ''float''"
| "type_name (PStr s) = py ''str''"
| "type_name (PList xs) = py ''list''"
| "type_name (PDict kvs) = py ''dict''"

text \<open>
  \<open>str.isspace\<close> on one code point, and \<open>str.strip()\<close>, which removes leading and
  trailing whitespace.
\<close>

definition is_space :: "nat \<Rightarrow> bool" where
  "is_space c \<longleftrightarrow>
     (9 \<le> c \<and> c \<le> 13) \<or> (28 \<le> c \<and> c \<le> 32) \<or> c = 133 \<or> c = 160 \<or> c = 5760 \<or>
     (8192 \<le> c \<and> c \<le> 8202) \<or> c = 8232 \<or> c = 8233 \<or> c = 8239 \<or> c = 8287 \<or>
     c = 12288"

definition strip :: "pystr \<Rightarrow> pystr" where
  "strip s = rev (dropWhile is_space (rev (dropWhile is_space s)))"

section \<open>Exceptions\<close>

text \<open>
  An exception is its class and its text (\<open>str(e)\<close>). \<open>Exception\<close> stands for any
  other class derived from \<open>Exception\<close>; \<open>BaseException\<close> stands for the classes
  outside that hierarchy (\<open>KeyboardInterrupt\<close>, \<open>SystemExit\<close>), which a clause
  \<open>except Exception\<close> does not catch.
\<close>

datatype exn_class =
    ValueError | TypeError | RuntimeError | AttributeError | UnicodeEncodeError
  | Exception | BaseException

datatype exn = Exn exn_class pystr

fun exn_text :: "exn \<Rightarrow> pystr" where
  "exn_text (Exn c m) = m"

fun is_Exception :: "exn \<Rightarrow> bool" where
  "is_Exception (Exn c m) = (c \<noteq> BaseException)"

text \<open>A text between apostrophes, as in the messages of the interpreter.\<close>

definition quoted :: "pystr \<Rightarrow> pystr" where
  "quoted s = [39] @ s @ [39]"

definition no_attribute :: "pyval \<Rightarrow> string \<Rightarrow> exn" where
  "no_attribute v a =
     Exn AttributeError
       (quoted (type_name v) @ py '' object has no attribute '' @ quoted (py a))"

text \<open>\<open>d.get(k, default)\<close>: an attribute error on anything that is not a dict.\<close>

fun py_get :: "pyval \<Rightarrow> pystr \<Rightarrow> pyval \<Rightarrow> exn + pyval" where
  "py_get (PDict kvs) k dflt = Inr (case map_of kvs k of Some v \<Rightarrow> v | None \<Rightarrow> dflt)"
| "py_get v k dflt = Inl (no_attribute v ''get'')"

section \<open>The evaluation engine and the client singleton\<close>

text \<open>
  The engine (the \<open>ldclient\<close> package) is outside the repository. A context is
  represented by what the code hands to the engine's context builder: the key, the kind,
  the anonymous flag and the attributes set, in the order they were set.
\<close>

record single_context =
  ctx_key :: pyval
  ctx_kind :: pystr
  ctx_anonymous :: bool
  ctx_attrs :: "(pystr \<times> pystr) list"

datatype ld_context = Multi "single_context list"

text \<open>\<open>EvaluationDetail\<close>: the value and the engine's native reason.\<close>

record detail =
  detail_value :: pyval
  detail_reason :: pyval

text \<open>
  A client object: its identity, what \<open>is_initialized()\<close> answers, and what
  \<open>variation_detail\<close> does (it returns a detail or raises).
\<close>

record ld_client =
  client_id :: nat
  client_is_initialized :: bool
  variation_detail :: "pystr \<Rightarrow> ld_context \<Rightarrow> pyval \<Rightarrow> exn + detail"

text \<open>The module-level globals.\<close>

record app_state =
  ld_client :: "ld_client option"
  sdk_initialized :: bool
  sdk_initialization_error :: "pystr option"
  current_context :: pyval

definition get_ld_client :: "app_state \<Rightarrow> ld_client option" where
  "get_ld_client s = ld_client s"

definition is_sdk_initialized :: "app_state \<Rightarrow> bool" where
  "is_sdk_initialized s \<longleftrightarrow>
     sdk_initialized s \<and>
     (case ld_client s of None \<Rightarrow> False | Some c \<Rightarrow> client_is_initialized c)"


text \<open>Lines 49-60 and 42-44: the globals when the module is loaded. The context key
  ends in a fresh \<open>uuid.uuid4()\<close>, taken as a parameter.\<close>

definition anonymous_key :: "pystr \<Rightarrow> pystr" where
  "anonymous_key uuid = py ''python-anon-'' @ uuid"

definition container_dict :: pyval where
  "container_dict =
     PDict [(py ''kind'', PStr (py ''container'')), (py ''key'', PStr (py ''python-app''))]"

definition startup_context :: "pystr \<Rightarrow> pyval" where
  "startup_context uuid =
     PDict
       [(py ''kind'', PStr (py ''multi'')),
        (py ''user'', PDict
           [(py ''kind'', PStr (py ''user'')),
            (py ''key'', PStr (anonymous_key uuid)),
            (py ''anonymous'', PBool True)]),
        (py ''container'', container_dict)]"

definition startup_state :: "pystr \<Rightarrow> app_state" where
  "startup_state uuid =
     \<lparr>ld_client = None, sdk_initialized = False, sdk_initialization_error = None,
      current_context = startup_context uuid\<rparr>"

text \<open>
  What \<open>initialize_launchdarkly_sdk\<close> reads from outside: the environment variable, the
  engine's \<open>set_config\<close>/\<open>get\<close> (a client, or an exception), the answer of
  \<open>is_initialized()\<close> at each poll of the wait loop, and the number of polls after which
  the clock has passed the ten-second timeout.
\<close>

record init_env =
  env_sdk_key :: "pystr option"
  ldclient_get :: "pystr \<Rightarrow> exn + ld_client"
  is_initialized_at :: "nat \<Rightarrow> bool"
  timeout_polls :: nat

text \<open>Lines 109-117: the wait loop, \<open>i\<close> the poll, the last argument the polls left
  before the timeout. It returns whether the engine became ready in time.\<close>

fun wait_loop :: "init_env \<Rightarrow> nat \<Rightarrow> nat \<Rightarrow> bool" where
  "wait_loop env i 0 = is_initialized_at env i"
| "wait_loop env i (Suc n) =
     (if is_initialized_at env i then True else wait_loop env (Suc i) n)"

definition initialize_launchdarkly_sdk ::
  "init_env \<Rightarrow> app_state \<Rightarrow> (exn + bool) \<times> app_state" where
  "initialize_launchdarkly_sdk env s =
     (if sdk_initialized s \<and> ld_client s \<noteq> None then (Inr True, s)
      else
        (case env_sdk_key env of
           None \<Rightarrow>
             (Inr False,
              s\<lparr>sdk_initialization_error :=
                   Some (py ''LAUNCHDARKLY_SDK_KEY environment variable not set''),
                 sdk_initialized := False\<rparr>)
         | Some sdk_key \<Rightarrow>
             if sdk_key = [] then
               (Inr False,
                s\<lparr>sdk_initialization_error :=
                     Some (py ''LAUNCHDARKLY_SDK_KEY environment variable not set''),
                   sdk_initialized := False\<rparr>)
             else
               (case ldclient_get env sdk_key of
                  Inl e \<Rightarrow>
                    if is_Exception e then
                      (Inr False,
                       s\<lparr>sdk_initialization_error :=
                            Some (py ''Failed to initialize LaunchDarkly SDK: '' @ exn_text e),
                          sdk_initialized := False\<rparr>)
                    else (Inl e, s)
                | Inr c \<Rightarrow>
                    if wait_loop env 0 (timeout_polls env) then
                      (Inr True,
                       s\<lparr>ld_client := Some (c\<lparr>client_is_initialized := True\<rparr>),
                         sdk_initialized := True,
                         sdk_initialization_error := None\<rparr>)
                    else
                      (Inr False,
                       s\<lparr>ld_client := Some (c\<lparr>client_is_initialized := False\<rparr>),
                         sdk_initialization_error :=
                           Some (py ''SDK initialization timed out after 10 seconds''),
                         sdk_initialized := False\<rparr>))))"

text \<open>Engines and states used to run the definitions on concrete inputs.\<close>

definition answering_client :: "(exn + detail) \<Rightarrow> ld_client" where
  "answering_client r =
     \<lparr>client_id = 1, client_is_initialized = True, variation_detail = (\<lambda>k c d. r)\<rparr>"

definition ready_state :: "ld_client \<Rightarrow> app_state" where
  "ready_state c = (startup_state (py ''0''))\<lparr>ld_client := Some c, sdk_initialized := True\<rparr>"

definition rule_match_detail :: detail where
  "rule_match_detail =
     \<lparr>detail_value = PStr (py ''Welcome back!''),
      detail_reason = PDict
        [(py ''kind'', PStr (py ''RULE_MATCH'')), (py ''ruleIndex'', PInt 0),
         (py ''ruleId'', PNone), (py ''inExperiment'', PBool False)]\<rparr>"

definition test_env :: init_env where
  "test_env =
     \<lparr>env_sdk_key = Some (py ''sdk-key''),
      ldclient_get = (\<lambda>k. Inr ((answering_client (Inl (Exn Exception [])))\<lparr>client_id := 2\<rparr>)),
      is_initialized_at = (\<lambda>i. 3 \<le> i),
      timeout_polls = 100\<rparr>"

section \<open>Flag evaluation\<close>

text \<open>The calls made to the engine's detailed evaluation are recorded next to the result.\<close>

datatype engine_call = VariationDetail pystr ld_context pyval

text \<open>Lines 591-616: the engine's reason, normalised.\<close>

definition reason_dict_of :: "pyval \<Rightarrow> (pystr \<times> pyval) list" where
  "reason_dict_of r = (case r of PDict kvs \<Rightarrow> kvs | _ \<Rightarrow> [])"

definition optional_field :: "(pystr \<times> pyval) list \<Rightarrow> pystr \<Rightarrow> (pystr \<times> pyval) list" where
  "optional_field reason_dict k =
     (case map_of reason_dict k of
        None \<Rightarrow> []
      | Some v \<Rightarrow> if v \<noteq> PNone then [(k, v)] else [])"

definition normalize_reason :: "pyval \<Rightarrow> pyval" where
  "normalize_reason r =
     (let reason_dict = reason_dict_of r
      in PDict
          ([(py ''kind'',
             (case map_of reason_dict (py ''kind'') of
                Some v \<Rightarrow> v
              | None \<Rightarrow> PStr (py ''UNKNOWN'')))]
           @ optional_field reason_dict (py ''ruleIndex'')
           @ optional_field reason_dict (py ''ruleId'')
           @ optional_field reason_dict (py ''errorKind'')))"

definition client_not_ready :: "pyval \<Rightarrow> pyval" where
  "client_not_ready default_value =
     PDict
       [(py ''value'', default_value),
        (py ''reason'', PDict
           [(py ''kind'', PStr (py ''ERROR'')),
            (py ''errorKind'', PStr (py ''CLIENT_NOT_READY''))])]"

definition evaluate_flag ::
  "app_state \<Rightarrow> pystr \<Rightarrow> ld_context \<Rightarrow> pyval \<Rightarrow> (exn + pyval) \<times> engine_call list" where
  "evaluate_flag s flag_key ctx default_value =
     (let client = get_ld_client s
      in if \<not> is_sdk_initialized s \<or> client = None then
           (Inr (client_not_ready default_value), [])
         else
           (case client of
              None \<Rightarrow> (Inr (client_not_ready default_value), [])
            | Some c \<Rightarrow>
                (case variation_detail c flag_key ctx default_value of
                   Inr d \<Rightarrow>
                     Inr (PDict
                       [(py ''value'', detail_value d),
                        (py ''reason'', normalize_reason (detail_reason d))])
                 | Inl e \<Rightarrow>
                     if is_Exception e then
                       Inr (PDict
                         [(py ''value'', default_value),
                          (py ''reason'', PDict
                             [(py ''kind'', PStr (py ''ERROR'')),
                              (py ''errorKind'', PStr (py ''EXCEPTION'')),
                              (py ''errorMessage'', PStr (exn_text e))])])
                     else Inl e,
                 [VariationDetail flag_key ctx default_value])))"


section \<open>Context creation\<close>

text \<open>
  The engine's context builder, from the two requested contexts (the user's, the
  container's) to the multi-context, or an exception. \<open>ldclient_builder\<close> is the
  package's own, which builds what it is asked to.
\<close>

type_synonym context_builder = "single_context \<Rightarrow> single_context \<Rightarrow> exn + ld_context"

definition ldclient_builder :: context_builder where
  "ldclient_builder user_context container_context =
     Inr (Multi [user_context, container_context])"

definition container_context :: single_context where
  "container_context =
     \<lparr>ctx_key = PStr (py ''python-app''), ctx_kind = py ''container'',
      ctx_anonymous = False, ctx_attrs = []\<rparr>"

text \<open>
  \<open>if v and isinstance(v, str) and v.strip(): builder.set(name, v.strip())\<close>
  (lines 379-389).
\<close>

definition set_if_nonblank :: "pystr \<Rightarrow> pyval \<Rightarrow> (pystr \<times> pystr) list" where
  "set_if_nonblank name v =
     (case v of
        PStr t \<Rightarrow> if t \<noteq> [] \<and> strip t \<noteq> [] then [(name, strip t)] else []
      | _ \<Rightarrow> [])"

text \<open>Lines 349-406.\<close>

definition buildContext :: "context_builder \<Rightarrow> pyval \<Rightarrow> exn + ld_context" where
  "buildContext builder context_data =
     (case context_data of
        PNone \<Rightarrow> Inl (Exn ValueError (py ''context_data cannot be None''))
      | PDict kvs \<Rightarrow>
          (let context_key = (case map_of kvs (py ''key'') of Some v \<Rightarrow> v | None \<Rightarrow> PNone);
               email = (case map_of kvs (py ''email'') of Some v \<Rightarrow> v | None \<Rightarrow> PNone);
               name = (case map_of kvs (py ''name'') of Some v \<Rightarrow> v | None \<Rightarrow> PNone);
               location =
                 (case map_of kvs (py ''location'') of Some v \<Rightarrow> v | None \<Rightarrow> PNone);
               anonymous =
                 (case map_of kvs (py ''anonymous'') of Some v \<Rightarrow> v | None \<Rightarrow> PBool False)
           in if \<not> truthy context_key then
                Inl (Exn ValueError
                  (py ''context_data must contain a '' @ quoted (py ''key'') @ py '' field''))
              else
                (case builder
                    \<lparr>ctx_key = context_key, ctx_kind = py ''user'',
                     ctx_anonymous = truthy anonymous,
                     ctx_attrs =
                       set_if_nonblank (py ''email'') email
                       @ set_if_nonblank (py ''name'') name
                       @ set_if_nonblank (py ''location'') location\<rparr>
                    container_context of
                   Inr multi_context \<Rightarrow> Inr multi_context
                 | Inl e \<Rightarrow>
                     if is_Exception e then
                       Inl (Exn RuntimeError
                         (py ''Failed to build multi-context: '' @ exn_text e))
                     else Inl e))
      | _ \<Rightarrow>
          Inl (Exn ValueError
            (py ''context_data must be a dictionary, got '' @ type_name context_data)))"

text \<open>
  Lines 449-466: an optional parameter is \<open>None\<close> or a string, anything else is a
  \<open>TypeError\<close>.
\<close>

definition optional_str :: "string \<Rightarrow> pyval \<Rightarrow> exn + pystr option" where
  "optional_str name v =
     (case v of
        PNone \<Rightarrow> Inr None
      | PStr t \<Rightarrow> Inr (Some t)
      | _ \<Rightarrow> Inl (Exn TypeError (py name @ py '' must be a string, got '' @ type_name v)))"

text \<open>\<open>if v and v.strip(): builder.set(name, v.strip())\<close> (lines 476-486).\<close>

definition set_if_given :: "pystr \<Rightarrow> pystr option \<Rightarrow> (pystr \<times> pystr) list" where
  "set_if_given name v =
     (case v of
        None \<Rightarrow> []
      | Some t \<Rightarrow> if t \<noteq> [] \<and> strip t \<noteq> [] then [(name, strip t)] else [])"

text \<open>Lines 439-503.\<close>

definition create_context ::
  "context_builder \<Rightarrow> pyval \<Rightarrow> pyval \<Rightarrow> pyval \<Rightarrow> pyval \<Rightarrow> exn + ld_context" where
  "create_context builder context_key email name location =
     (case context_key of
        PNone \<Rightarrow> Inl (Exn ValueError (py ''context_key cannot be None''))
      | PStr k \<Rightarrow>
          if k = [] \<or> strip k = [] then
            Inl (Exn ValueError (py ''context_key cannot be empty or whitespace''))
          else
            (case optional_str ''email'' email of
               Inl e \<Rightarrow> Inl e
             | Inr email' \<Rightarrow>
                 (case optional_str ''name'' name of
                    Inl e \<Rightarrow> Inl e
                  | Inr name' \<Rightarrow>
                      (case optional_str ''location'' location of
                         Inl e \<Rightarrow> Inl e
                       | Inr location' \<Rightarrow>
                           (case builder
                               \<lparr>ctx_key = PStr (strip k), ctx_kind = py ''user'',
                                ctx_anonymous = False,
                                ctx_attrs =
                                  set_if_given (py ''email'') email'
                                  @ set_if_given (py ''name'') name'
                                  @ set_if_given (py ''location'') location'\<rparr>
                               container_context of
                              Inr multi_context \<Rightarrow> Inr multi_context
                            | Inl e \<Rightarrow>
                                if is_Exception e then
                                  Inl (Exn RuntimeError
                                    (py ''Failed to create multi-context: '' @ exn_text e))
                                else Inl e))))
      | _ \<Rightarrow>
          Inl (Exn ValueError
            (py ''context_key must be a string, got '' @ type_name context_key)))"

text \<open>Lines 524-533.\<close>

definition validate_context_key :: "pyval \<Rightarrow> bool \<times> pystr option" where
  "validate_context_key context_key =
     (case context_key of
        PNone \<Rightarrow> (False, Some (py ''context_key cannot be None''))
      | PStr k \<Rightarrow>
          if k = [] \<or> strip k = [] then
            (False, Some (py ''context_key cannot be empty or whitespace''))
          else (True, None)
      | _ \<Rightarrow>
          (False, Some (py ''context_key must be a string, got '' @ type_name context_key)))"

section \<open>Hash value calculation for bucketing\<close>

subsection \<open>UTF-8\<close>

text \<open>
  \<open>str.encode('utf-8')\<close>: a list of bytes, or \<open>None\<close> where Python raises
  \<open>UnicodeEncodeError\<close> (a surrogate code point).
\<close>

definition utf8_encode_char :: "nat \<Rightarrow> nat list option" where
  "utf8_encode_char c =
     (if c < 0x80 then Some [c]
      else if c < 0x800 then Some [0xC0 + c div 64, 0x80 + c mod 64]
      else if 0xD800 \<le> c \<and> c \<le> 0xDFFF then None
      else if c < 0x10000 then
        Some [0xE0 + c div 4096, 0x80 + c div 64 mod 64, 0x80 + c mod 64]
      else if c < 0x110000 then
        Some [0xF0 + c div 262144, 0x80 + c div 4096 mod 64, 0x80 + c div 64 mod 64,
              0x80 + c mod 64]
      else None)"

fun utf8_encode :: "pystr \<Rightarrow> nat list option" where
  "utf8_encode [] = Some []"
| "utf8_encode (c # cs) =
     (case utf8_encode_char c of
        None \<Rightarrow> None
      | Some bs \<Rightarrow>
          (case utf8_encode cs of None \<Rightarrow> None | Some rest \<Rightarrow> Some (bs @ rest)))"

subsection \<open>SHA-1\<close>

text \<open>
  \<open>hashlib.sha1\<close>, after FIPS 180-4. A 32-bit word is a natural number below \<open>2^32\<close>;
  additions are reduced modulo \<open>2^32\<close> where they are made.
\<close>

definition rotl :: "nat \<Rightarrow> nat \<Rightarrow> nat" where
  "rotl n w = (w * 2 ^ n) mod 4294967296 + w div 2 ^ (32 - n)"

definition length_bytes :: "nat \<Rightarrow> nat list" where
  "length_bytes l =
     [8 * l div 72057594037927936 mod 256, 8 * l div 281474976710656 mod 256,
      8 * l div 1099511627776 mod 256, 8 * l div 4294967296 mod 256,
      8 * l div 16777216 mod 256, 8 * l div 65536 mod 256, 8 * l div 256 mod 256,
      8 * l mod 256]"

definition sha1_pad :: "nat list \<Rightarrow> nat list" where
  "sha1_pad m =
     m @ [128] @ replicate ((119 - length m mod 64) mod 64) 0 @ length_bytes (length m)"

fun be_words :: "nat list \<Rightarrow> nat list" where
  "be_words (a # b # c # d # rest) =
     (((a * 256 + b) * 256 + c) * 256 + d) # be_words rest"
| "be_words _ = []"

fun blocks :: "nat list \<Rightarrow> nat list list" where
  "blocks [] = []"
| "blocks (w # ws) = take 16 (w # ws) # blocks (drop 16 (w # ws))"

definition sha1_f :: "nat \<Rightarrow> nat \<Rightarrow> nat \<Rightarrow> nat \<Rightarrow> nat" where
  "sha1_f t b c d =
     (if t < 20 then (b AND c) OR ((4294967295 - b) AND d)
      else if t < 40 then b XOR c XOR d
      else if t < 60 then (b AND c) OR (b AND d) OR (c AND d)
      else b XOR c XOR d)"

definition sha1_k :: "nat \<Rightarrow> nat" where
  "sha1_k t =
     (if t < 20 then 0x5A827999
      else if t < 40 then 0x6ED9EBA1
      else if t < 60 then 0x8F1BBCDC
      else 0xCA62C1D6)"

text \<open>The message schedule, most recent word first.\<close>

fun expand :: "nat \<Rightarrow> nat list \<Rightarrow> nat list" where
  "expand 0 ws = ws"
| "expand (Suc n) ws =
     expand n (rotl 1 (ws ! 2 XOR ws ! 7 XOR ws ! 13 XOR ws ! 15) # ws)"

type_synonym sha_state = "nat \<times> nat \<times> nat \<times> nat \<times> nat"

fun sha1_rounds :: "nat \<Rightarrow> nat list \<Rightarrow> sha_state \<Rightarrow> sha_state" where
  "sha1_rounds t [] s = s"
| "sha1_rounds t (w # ws) (a, b, c, d, e) =
     sha1_rounds (t + 1) ws
       ((rotl 5 a + sha1_f t b c d + e + sha1_k t + w) mod 4294967296, a, rotl 30 b, c, d)"

fun sha1_block :: "sha_state \<Rightarrow> nat list \<Rightarrow> sha_state" where
  "sha1_block (h0, h1, h2, h3, h4) blk =
     (case sha1_rounds 0 (rev (expand 64 (rev blk))) (h0, h1, h2, h3, h4) of
        (a, b, c, d, e) \<Rightarrow>
          ((h0 + a) mod 4294967296, (h1 + b) mod 4294967296, (h2 + c) mod 4294967296,
           (h3 + d) mod 4294967296, (h4 + e) mod 4294967296))"

definition sha1 :: "nat list \<Rightarrow> sha_state" where
  "sha1 m =
     foldl sha1_block (0x67452301, 0xEFCDAB89, 0x98BADCFE, 0x10325476, 0xC3D2E1F0)
       (blocks (be_words (sha1_pad m)))"

definition hex_digit :: "nat \<Rightarrow> char" where
  "hex_digit n = ''0123456789abcdef'' ! n"

definition hex_word :: "nat \<Rightarrow> string" where
  "hex_word w =
     map hex_digit
       [w div 268435456 mod 16, w div 16777216 mod 16, w div 1048576 mod 16,
        w div 65536 mod 16, w div 4096 mod 16, w div 256 mod 16, w div 16 mod 16,
        w mod 16]"

definition hexdigest :: "sha_state \<Rightarrow> string" where
  "hexdigest s = (case s of (a, b, c, d, e) \<Rightarrow> concat (map hex_word [a, b, c, d, e]))"

subsection \<open>Reading a hexadecimal number, dividing two integers\<close>

text \<open>
  \<open>int(s, 16)\<close> on a string of hexadecimal digits; \<open>None\<close> is Python's \<open>ValueError\<close>
  (the empty string, or a character that is not a digit).
\<close>

definition hex_value :: "char \<Rightarrow> nat option" where
  "hex_value c =
     (let n = of_char c :: nat
      in if 48 \<le> n \<and> n \<le> 57 then Some (n - 48)
         else if 97 \<le> n \<and> n \<le> 102 then Some (n - 87)
         else if 65 \<le> n \<and> n \<le> 70 then Some (n - 55)
         else None)"

fun int_base16_from :: "nat \<Rightarrow> string \<Rightarrow> nat option" where
  "int_base16_from acc [] = Some acc"
| "int_base16_from acc (c # cs) =
     (case hex_value c of None \<Rightarrow> None | Some v \<Rightarrow> int_base16_from (16 * acc + v) cs)"

definition int_base16 :: "string \<Rightarrow> nat option" where
  "int_base16 s = (if s = [] then None else int_base16_from 0 s)"

text \<open>
  \<open>a / b\<close> on two non-negative integers: the double nearest to the quotient, ties to the
  even significand, as a rational number; \<open>None\<close> is \<open>ZeroDivisionError\<close>. The
  significand has 53 bits. (Quotients outside the range of normal doubles do not arise
  from the operands of this program, which are below \<open>2^60\<close>.)
\<close>

fun bit_length :: "nat \<Rightarrow> nat" where
  "bit_length n = (if n = 0 then 0 else Suc (bit_length (n div 2)))"

declare bit_length.simps [simp del]

definition round_div :: "nat \<Rightarrow> nat \<Rightarrow> nat" where
  "round_div n d =
     (if 2 * (n mod d) < d then n div d
      else if d < 2 * (n mod d) then n div d + 1
      else if even (n div d) then n div d
      else n div d + 1)"

definition quotient_exponent :: "nat \<Rightarrow> nat \<Rightarrow> int" where
  "quotient_exponent a b =
     (if bit_length b \<le> bit_length a then
        (if b * 2 ^ (bit_length a - bit_length b) \<le> a
         then int (bit_length a - bit_length b)
         else int (bit_length a - bit_length b) - 1)
      else
        (if b \<le> a * 2 ^ (bit_length b - bit_length a)
         then - int (bit_length b - bit_length a)
         else - int (bit_length b - bit_length a) - 1))"

definition true_divide :: "nat \<Rightarrow> nat \<Rightarrow> rat option" where
  "true_divide a b =
     (if b = 0 then None
      else if a = 0 then Some 0
      else if quotient_exponent a b \<le> 52 then
        Some (of_nat (round_div (a * 2 ^ nat (52 - quotient_exponent a b)) b)
                / 2 ^ nat (52 - quotient_exponent a b))
      else
        Some (of_nat (round_div a (b * 2 ^ nat (quotient_exponent a b - 52)))
                * 2 ^ nat (quotient_exponent a b - 52)))"

subsection \<open>\<open>calculate_hash_value\<close> and \<open>get_flag_salt\<close>\<close>

record hash_info =
  hashValue :: nat
  bucketValue :: rat
  salt :: pystr

text \<open>
  Lines 235-266. \<open>None\<close> is the Python \<open>None\<close>, returned on invalid inputs and by the
  handler of any exception raised on the way.
\<close>

definition calculate_hash_value :: "pystr \<Rightarrow> pystr \<Rightarrow> pystr \<Rightarrow> hash_info option" where
  "calculate_hash_value flag_key context_key salt' =
     (if flag_key = [] \<or> context_key = [] \<or> salt' = [] then None
      else
        (case utf8_encode (flag_key @ py ''.'' @ salt' @ py ''.'' @ context_key) of
           None \<Rightarrow> None
         | Some hash_input \<Rightarrow>
             (case int_base16 (take 15 (hexdigest (sha1 hash_input))) of
                None \<Rightarrow> None
              | Some hash_value \<Rightarrow>
                  (case true_divide hash_value 0xFFFFFFFFFFFFFFF of
                     None \<Rightarrow> None
                   | Some bucket_value \<Rightarrow>
                       Some \<lparr>hashValue = hash_value, bucketValue = bucket_value,
                             salt = salt'\<rparr>))))"

definition get_flag_salt :: "app_state \<Rightarrow> pystr \<Rightarrow> pystr" where
  "get_flag_salt s flag_key =
     (if get_ld_client s = None \<or> \<not> is_sdk_initialized s then flag_key
      else if flag_key = py ''user-message'' then py ''94b881a3be5c449d99dbbe1a92ca3fa0''
      else flag_key)"

section \<open>The context endpoint and the context of the flag endpoint\<close>

text \<open>Running the steps of a \<open>try\<close> block: the first exception ends it.\<close>

definition and_then :: "exn + 'a \<Rightarrow> ('a \<Rightarrow> exn + 'b) \<Rightarrow> exn + 'b" where
  "and_then m f = (case m of Inl e \<Rightarrow> Inl e | Inr x \<Rightarrow> f x)"

text \<open>\<open>v.strip()\<close> and \<open>v.startswith(p)\<close> on a value that may not be a string.\<close>

definition py_strip :: "pyval \<Rightarrow> exn + pystr" where
  "py_strip v = (case v of PStr t \<Rightarrow> Inr (strip t) | _ \<Rightarrow> Inl (no_attribute v ''strip''))"

definition py_startswith :: "pyval \<Rightarrow> pystr \<Rightarrow> exn + bool" where
  "py_startswith v p =
     (case v of
        PStr t \<Rightarrow> Inr (take (length p) t = p)
      | _ \<Rightarrow> Inl (no_attribute v ''startswith''))"

text \<open>\<open>not v or v.strip() == ''\<close> and \<open>v and v.strip()\<close>, as truth values.\<close>

definition is_blank :: "pyval \<Rightarrow> exn + bool" where
  "is_blank v = (if \<not> truthy v then Inr True else and_then (py_strip v) (\<lambda>t. Inr (t = [])))"

definition is_nonblank :: "pyval \<Rightarrow> exn + bool" where
  "is_nonblank v =
     (if \<not> truthy v then Inr False else and_then (py_strip v) (\<lambda>t. Inr (t \<noteq> [])))"

text \<open>Lines 970-988: the custom context.\<close>

definition custom_context :: "pyval \<Rightarrow> pyval \<Rightarrow> pyval \<Rightarrow> exn + pyval" where
  "custom_context email name location =
     and_then (is_nonblank name) (\<lambda>has_name.
     and_then (is_nonblank location) (\<lambda>has_location.
       Inr (PDict
         [(py ''kind'', PStr (py ''multi'')),
          (py ''user'', PDict
             ([(py ''kind'', PStr (py ''user'')),
               (py ''key'', email),
               (py ''email'', email),
               (py ''anonymous'', PBool False)]
              @ (if has_name then [(py ''name'', name)] else [])
              @ (if has_location then [(py ''location'', location)] else []))),
          (py ''container'', container_dict)])))"

text \<open>Lines 992-996, each disjunct evaluated only when those before it are false.\<close>

definition needs_new_key :: "pyval \<Rightarrow> exn + bool" where
  "needs_new_key current =
     (if \<not> truthy current then Inr True
      else if (case current of PDict kvs \<Rightarrow> False | _ \<Rightarrow> True) then Inr True
      else
        and_then (py_get current (py ''kind'') PNone) (\<lambda>kind.
          if kind \<noteq> PStr (py ''multi'') then Inr True
          else
            and_then (py_get current (py ''user'') (PDict [])) (\<lambda>user.
            and_then (py_get user (py ''anonymous'') (PBool False)) (\<lambda>anonymous.
              if \<not> truthy anonymous then Inr True
              else
                and_then (py_get user (py ''key'') (PStr [])) (\<lambda>key.
                and_then (py_startswith key (py ''python-anon-'')) (\<lambda>starts.
                  Inr (\<not> starts)))))))"

text \<open>Lines 998-1017: the anonymous context; \<open>uuid\<close> is the fresh \<open>uuid.uuid4()\<close>.\<close>

definition anonymous_context :: "pyval \<Rightarrow> pystr \<Rightarrow> pyval \<Rightarrow> exn + pyval" where
  "anonymous_context current uuid location =
     and_then (needs_new_key current) (\<lambda>new_key.
     and_then
       (if new_key then Inr (PStr (anonymous_key uuid))
        else
          and_then (py_get current (py ''user'') (PDict [])) (\<lambda>user.
            py_get user (py ''key'') (PStr (anonymous_key uuid))))
       (\<lambda>context_key.
     and_then (is_nonblank location) (\<lambda>has_location.
       Inr (PDict
         [(py ''kind'', PStr (py ''multi'')),
          (py ''user'', PDict
             ([(py ''kind'', PStr (py ''user'')),
               (py ''key'', context_key),
               (py ''anonymous'', PBool True)]
              @ (if has_location then [(py ''location'', location)] else []))),
          (py ''container'', container_dict)]))))"

text \<open>
  Lines 953-1018: the body of the \<open>try\<close> block of a POST up to the assignment of the global.
  \<open>body\<close> is what \<open>request.get_json()\<close> gives: the parsed body, or an exception.
\<close>

datatype update = Rejected | Updated pyval

definition new_context :: "pyval \<Rightarrow> exn + pyval \<Rightarrow> pystr \<Rightarrow> exn + update" where
  "new_context current body uuid =
     and_then body (\<lambda>data.
     and_then (py_get data (py ''type'') (PStr (py ''anonymous''))) (\<lambda>context_type.
     and_then (py_get data (py ''email'') PNone) (\<lambda>email.
     and_then (py_get data (py ''name'') PNone) (\<lambda>name.
     and_then (py_get data (py ''location'') PNone) (\<lambda>location.
       if context_type = PStr (py ''custom'') then
         and_then (is_blank email) (\<lambda>blank.
           if blank then Inr Rejected
           else and_then (custom_context email name location) (\<lambda>c. Inr (Updated c)))
       else
         and_then (anonymous_context current uuid location) (\<lambda>c. Inr (Updated c)))))))"

datatype http_method = GET | POST | OPTIONS

text \<open>
  Lines 932-1044: \<open>context_endpoint\<close>. A response is its status and its JSON body (the
  headers are left out).
\<close>

definition context_endpoint ::
  "app_state \<Rightarrow> http_method \<Rightarrow> exn + pyval \<Rightarrow> pystr \<Rightarrow> (exn + nat \<times> pyval) \<times> app_state" where
  "context_endpoint s verb body uuid =
     (case verb of
        OPTIONS \<Rightarrow> (Inr (200, PDict [(py ''status'', PStr (py ''ok''))]), s)
      | GET \<Rightarrow> (Inr (200, current_context s), s)
      | POST \<Rightarrow>
          (case new_context (current_context s) body uuid of
             Inr Rejected \<Rightarrow>
               (Inr (400, PDict
                  [(py ''success'', PBool False),
                   (py ''error'', PStr (py ''Email is required for custom context''))]), s)
           | Inr (Updated c) \<Rightarrow>
               (Inr (200, PDict [(py ''success'', PBool True), (py ''context'', c)]),
                s\<lparr>current_context := c\<rparr>)
           | Inl e \<Rightarrow>
               if is_Exception e then
                 (Inr (500, PDict
                    [(py ''success'', PBool False), (py ''error'', PStr (exn_text e))]), s)
               else (Inl e, s)))"

text \<open>The globals after a sequence of requests to the context endpoint.\<close>

fun after_requests ::
  "app_state \<Rightarrow> (http_method \<times> (exn + pyval) \<times> pystr) list \<Rightarrow> app_state" where
  "after_requests s [] = s"
| "after_requests s ((verb, body, uuid) # rest) =
     after_requests (snd (context_endpoint s verb body uuid)) rest"

text \<open>
  \<open>k in d\<close> for a string \<open>k\<close>: a key of a dict, an element of a list, a substring of a
  string, and a \<open>TypeError\<close> on the rest.
\<close>

definition py_in :: "pystr \<Rightarrow> pyval \<Rightarrow> exn + bool" where
  "py_in k d =
     (case d of
        PDict kvs \<Rightarrow> Inr (map_of kvs k \<noteq> None)
      | PList xs \<Rightarrow> Inr (PStr k \<in> set xs)
      | PStr t \<Rightarrow> Inr (list_ex (\<lambda>i. take (length k) (drop i t) = k) [0..<Suc (length t)])
      | _ \<Rightarrow>
          Inl (Exn TypeError
            (py ''argument of type '' @ quoted (type_name d) @ py '' is not iterable'')))"

text \<open>\<open>if not v and k in d: v = d.get(k)\<close> (lines 754-759 and 763-768).\<close>

definition from_current :: "pyval \<Rightarrow> pystr \<Rightarrow> pyval \<Rightarrow> exn + pyval" where
  "from_current v k d =
     (if \<not> truthy v then
        and_then (py_in k d) (\<lambda>present. if present then py_get d k PNone else Inr v)
      else Inr v)"

text \<open>
  Lines 740-779 of \<open>flag_endpoint\<close>: the context key and attributes the evaluation will
  use, from the query parameters and the current context, or the response
  \<open>MISSING_PARAMETER\<close>. An exception goes to the handler of the endpoint.
\<close>

datatype flag_context = MissingParameter | UseContext pyval pyval pyval pyval

definition query_arg :: "pystr option \<Rightarrow> pyval" where
  "query_arg a = (case a of None \<Rightarrow> PNone | Some t \<Rightarrow> PStr t)"

definition flag_endpoint_context ::
  "app_state \<Rightarrow> pystr option \<Rightarrow> pystr option \<Rightarrow> pystr option \<Rightarrow> pystr option
     \<Rightarrow> exn + flag_context" where
  "flag_endpoint_context s contextKey email name location =
     (if \<not> truthy (query_arg contextKey) then
        if truthy (current_context s) then
          and_then (py_get (current_context s) (py ''kind'') PNone) (\<lambda>kind.
            if kind = PStr (py ''multi'') then
              and_then (py_get (current_context s) (py ''user'') (PDict [])) (\<lambda>user.
              and_then (py_get user (py ''key'') PNone) (\<lambda>context_key.
              and_then (from_current (query_arg email) (py ''email'') user) (\<lambda>email'.
              and_then (from_current (query_arg name) (py ''name'') user) (\<lambda>name'.
              and_then (from_current (query_arg location) (py ''location'') user)
                (\<lambda>location'.
                Inr (UseContext context_key email' name' location'))))))
            else
              and_then (py_get (current_context s) (py ''key'') PNone) (\<lambda>context_key.
              and_then (from_current (query_arg email) (py ''email'') (current_context s))
                (\<lambda>email'.
              and_then (from_current (query_arg name) (py ''name'') (current_context s))
                (\<lambda>name'.
              and_then
                (from_current (query_arg location) (py ''location'') (current_context s))
                (\<lambda>location'.
                Inr (UseContext context_key email' name' location'))))))
        else Inr MissingParameter
      else
        Inr (UseContext (query_arg contextKey) (query_arg email) (query_arg name)
               (query_arg location)))"

text \<open>
  The shape the current context is meant to have: a dict of kind \<open>multi\<close> with a \<open>user\<close>
  dict whose key is a non-empty string and a \<open>container\<close> dict whose key is
  \<open>python-app\<close>.
\<close>

definition is_multi_context :: "pyval \<Rightarrow> bool" where
  "is_multi_context c =
     (case c of
        PDict kvs \<Rightarrow>
          map_of kvs (py ''kind'') = Some (PStr (py ''multi'')) \<and>
          (case map_of kvs (py ''user'') of
             Some (PDict user) \<Rightarrow>
               (case map_of user (py ''key'') of Some (PStr k) \<Rightarrow> k \<noteq> [] | _ \<Rightarrow> False)
           | _ \<Rightarrow> False) \<and>
          (case map_of kvs (py ''container'') of
             Some (PDict container) \<Rightarrow>
               map_of container (py ''key'') = Some (PStr (py ''python-app''))
           | _ \<Rightarrow> False)
      | _ \<Rightarrow> False)"

text \<open>The UTF-8 bytes of \<open>"user-message.94b881a3be5c449d99dbbe1a92ca3fa0.user-123"\<close>.\<close>

definition user_message_bytes :: "nat list" where
  "user_message_bytes =
     [117, 115, 101, 114, 45, 109, 101, 115, 115, 97, 103, 101, 46, 57, 52, 98, 56,
      56, 49, 97, 51, 98, 101, 53, 99, 52, 52, 57, 100, 57, 57, 100, 98, 98, 101, 49,
      97, 57, 50, 99, 97, 51, 102, 97, 48, 46, 117, 115, 101, 114, 45, 49, 50, 51]"

text \<open>
  A sequence of requests: a custom context, a request without a body, an anonymous
  context.
\<close>

definition context_requests :: "(http_method \<times> (exn + pyval) \<times> pystr) list" where
  "context_requests =
     [(POST, Inr (PDict [(py ''type'', PStr (py ''custom'')),
                         (py ''email'', PStr (py ''a@b.c''))]), py ''1''),
      (POST, Inl (Exn Exception (py ''415 Unsupported Media Type'')), py ''1''),
      (POST, Inr (PDict [(py ''type'', PStr (py ''anonymous''))]), py ''2'')]"

section \<open>Basic facts\<close>

lemma py_eq_iff [simp]: "py a = py b \<longleftrightarrow> a = b"
  unfolding py_def by (simp add: inj_on_def)

lemma answering_client_simps [simp]:
  "is_sdk_initialized (ready_state (answering_client r))"
  "get_ld_client (ready_state (answering_client r)) = Some (answering_client r)"
  "variation_detail (answering_client r) k c d = r"
  by (simp_all add: is_sdk_initialized_def get_ld_client_def ready_state_def
      answering_client_def)

lemma startup_state_simps [simp]:
  "\<not> is_sdk_initialized (startup_state u)"
  "get_ld_client (startup_state u) = None"
  by (simp_all add: is_sdk_initialized_def get_ld_client_def startup_state_def)

section \<open>Flag evaluation: the client is not ready\<close>

text \<open>
  C1. Whenever the SDK is not initialised or there is no client, \<open>evaluate_flag\<close>
  returns the supplied default with the reason \<open>ERROR\<close> / \<open>CLIENT_NOT_READY\<close>, and the
  list of calls made to the engine's detailed evaluation is empty.
\<close>

theorem evaluate_flag_client_not_ready:
  assumes "\<not> is_sdk_initialized s \<or> get_ld_client s = None"
  shows "evaluate_flag s flag_key ctx default_value =
    (Inr (PDict
       [(py ''value'', default_value),
        (py ''reason'', PDict
           [(py ''kind'', PStr (py ''ERROR'')),
            (py ''errorKind'', PStr (py ''CLIENT_NOT_READY''))])]), [])"
  using assms by (auto simp: evaluate_flag_def client_not_ready_def Let_def)

theorem evaluate_flag_client_not_ready_witness:
  "get_ld_client (startup_state (py ''0'')) = None \<and>
   evaluate_flag (startup_state (py ''0'')) (py ''user-message'') (Multi [])
       (PStr (py ''Hello!'')) =
    (Inr (PDict
       [(py ''value'', PStr (py ''Hello!'')),
        (py ''reason'', PDict
           [(py ''kind'', PStr (py ''ERROR'')),
            (py ''errorKind'', PStr (py ''CLIENT_NOT_READY''))])]), [])"
proof -
  have h: "\<not> is_sdk_initialized (startup_state (py ''0'')) \<or>
      get_ld_client (startup_state (py ''0'')) = None"
    by simp
  show ?thesis
    using evaluate_flag_client_not_ready
      [OF h, of "py ''user-message''" "Multi []" "PStr (py ''Hello!'')"]
    by simp
qed

section \<open>Flag evaluation: the engine raises\<close>

text \<open>
  C2, as the code has it. When the engine's detailed evaluation raises an exception of
  the \<open>Exception\<close> hierarchy, \<open>evaluate_flag\<close> returns (it does not raise) the supplied
  default with the reason \<open>ERROR\<close> / \<open>EXCEPTION\<close> and the exception's text as
  \<open>errorMessage\<close>, whatever that text is.
\<close>

theorem evaluate_flag_exception:
  assumes "is_sdk_initialized s" and "get_ld_client s = Some c"
    and "variation_detail c flag_key ctx default_value = Inl e" and "is_Exception e"
  shows "evaluate_flag s flag_key ctx default_value =
    (Inr (PDict
       [(py ''value'', default_value),
        (py ''reason'', PDict
           [(py ''kind'', PStr (py ''ERROR'')),
            (py ''errorKind'', PStr (py ''EXCEPTION'')),
            (py ''errorMessage'', PStr (exn_text e))])]),
     [VariationDetail flag_key ctx default_value])"
  using assms by (simp add: evaluate_flag_def Let_def)

theorem evaluate_flag_exception_witness:
  "evaluate_flag
     (ready_state (answering_client (Inl (Exn Exception (py ''Network error'')))))
     (py ''user-message'') (Multi []) (PStr (py ''Hello!'')) =
    (Inr (PDict
       [(py ''value'', PStr (py ''Hello!'')),
        (py ''reason'', PDict
           [(py ''kind'', PStr (py ''ERROR'')),
            (py ''errorKind'', PStr (py ''EXCEPTION'')),
            (py ''errorMessage'', PStr (py ''Network error''))])]),
     [VariationDetail (py ''user-message'') (Multi []) (PStr (py ''Hello!''))])"
  using evaluate_flag_exception
    [of "ready_state (answering_client (Inl (Exn Exception (py ''Network error''))))"
      "answering_client (Inl (Exn Exception (py ''Network error'')))"
      "py ''user-message''" "Multi []" "PStr (py ''Hello!'')"
      "Exn Exception (py ''Network error'')"]
  by simp

text \<open>
  The engine raising \<open>Exception()\<close>, whose text is empty: the \<open>errorMessage\<close> of the
  result is the empty string.
\<close>

theorem evaluate_flag_empty_error_message:
  "evaluate_flag (ready_state (answering_client (Inl (Exn Exception []))))
     (py ''user-message'') (Multi []) (PStr (py ''Hello!'')) =
    (Inr (PDict
       [(py ''value'', PStr (py ''Hello!'')),
        (py ''reason'', PDict
           [(py ''kind'', PStr (py ''ERROR'')),
            (py ''errorKind'', PStr (py ''EXCEPTION'')),
            (py ''errorMessage'', PStr [])])]),
     [VariationDetail (py ''user-message'') (Multi []) (PStr (py ''Hello!''))])"
  by (simp add: evaluate_flag_def Let_def)

section \<open>Starting the client twice\<close>

text \<open>
  C9. In a state where initialisation has succeeded and the client object exists,
  \<open>initialize_launchdarkly_sdk\<close> returns \<open>True\<close> and leaves every global as it was:
  the client, the initialised flag and the recorded error.
\<close>

theorem initialize_when_ready:
  assumes "sdk_initialized s" and "ld_client s \<noteq> None"
  shows "initialize_launchdarkly_sdk env s = (Inr True, s)"
  using assms by (simp add: initialize_launchdarkly_sdk_def)

theorem initialize_when_ready_witness:
  "sdk_initialized (ready_state (answering_client (Inl (Exn Exception [])))) \<and>
   ld_client (ready_state (answering_client (Inl (Exn Exception [])))) \<noteq> None \<and>
   initialize_launchdarkly_sdk test_env
       (ready_state (answering_client (Inl (Exn Exception [])))) =
     (Inr True, ready_state (answering_client (Inl (Exn Exception []))))"
  using initialize_when_ready
    [of "ready_state (answering_client (Inl (Exn Exception [])))" test_env]
  by (simp add: ready_state_def)


section \<open>Bucketing: general facts\<close>




lemma length_hex_word [simp]: "length (hex_word w) = 8"
  by (simp add: hex_word_def)










section \<open>Bucketing: running the definitions\<close>

lemma expand_numeral: "expand (numeral k) ws =
     expand (pred_numeral k) (rotl 1 (ws ! 2 XOR ws ! 7 XOR ws ! 13 XOR ws ! 15) # ws)"
  by (simp add: numeral_eq_Suc)

lemma replicate_numeral_eq: "replicate (numeral k) x = x # replicate (pred_numeral k) x"
  by (simp add: numeral_eq_Suc)

lemmas sha1_eval = sha1_def sha1_pad_def length_bytes_def replicate_numeral_eq expand_numeral
  rotl_def sha1_f_def sha1_k_def hexdigest_def hex_word_def hex_digit_def



text \<open>The test vector \<open>"abc"\<close> of FIPS 180.\<close>

lemma sha1_abc: "hexdigest (sha1 [97, 98, 99]) = ''a9993e364706816aba3e25717850c26c9cd0d89d''"
  by (simp add: sha1_eval)

lemma user_message_input:
  "utf8_encode (py ''user-message'' @ py ''.'' @ py ''94b881a3be5c449d99dbbe1a92ca3fa0'' @ py ''.''
      @ py ''user-123'') = Some user_message_bytes"
  by (simp add: py_def utf8_encode_char_def user_message_bytes_def)

lemma user_message_digest:
  "hexdigest (sha1 user_message_bytes) = ''038ec7183c1d73738e67035aea777a930a3efe47''"
  by (simp add: user_message_bytes_def sha1_eval)

lemma user_message_hash_value:
  "int_base16 (take 15 ''038ec7183c1d73738e67035aea777a930a3efe47'') = Some 16022570981775159"
  by (simp add: int_base16_def hex_value_def)

lemma user_message_quotient:
  "true_divide 16022570981775159 0xFFFFFFFFFFFFFFF =
     Some (2002821372721895 / 144115188075855872)"
  by (simp add: true_divide_def quotient_exponent_def round_div_def bit_length.simps)

lemma user_message_hash_info:
  "calculate_hash_value (py ''user-message'') (py ''user-123'') (py ''94b881a3be5c449d99dbbe1a92ca3fa0'') =
     Some \<lparr>hashValue = 16022570981775159,
           bucketValue = 2002821372721895 / 144115188075855872,
           salt = py ''94b881a3be5c449d99dbbe1a92ca3fa0''\<rparr>"
proof -
  have "py ''user-message'' \<noteq> []" "py ''user-123'' \<noteq> []"
    "py ''94b881a3be5c449d99dbbe1a92ca3fa0'' \<noteq> []"
    by (simp_all add: py_def)
  then show ?thesis
    unfolding calculate_hash_value_def
    by (simp add: user_message_input user_message_digest user_message_hash_value
        user_message_quotient del: take_Cons_numeral)
qed

section \<open>Bucketing: the claims\<close>





text \<open>
  C5, as the code has it. For \<open>flagKey = "user-message"\<close>, \<open>contextKey = "user-123"\<close> and
  \<open>salt = "94b881a3be5c449d99dbbe1a92ca3fa0"\<close> the digest starts with
  \<open>038ec7183c1d737\<close>, \<open>hashValue\<close> is 16022570981775159 and \<open>bucketValue\<close> is the double
  \<open>2002821372721895 / 2^57\<close>, which is 0.013897365013795064 to seventeen places.
\<close>

theorem user_message_bucket_value:
  "calculate_hash_value (py ''user-message'') (py ''user-123'') (py ''94b881a3be5c449d99dbbe1a92ca3fa0'') =
     Some \<lparr>hashValue = 16022570981775159,
           bucketValue = 2002821372721895 / 2 ^ 57,
           salt = py ''94b881a3be5c449d99dbbe1a92ca3fa0''\<rparr> \<and>
   \<bar>(2002821372721895 / 2 ^ 57 :: rat) - 13897365013795064 / 10 ^ 18\<bar> < 1 / 10 ^ 17"
  by (simp add: user_message_hash_info)

theorem user_message_bucket_value_witness:
  "map_option hashValue
     (calculate_hash_value (py ''user-message'') (py ''user-123'')
        (py ''94b881a3be5c449d99dbbe1a92ca3fa0'')) = Some 16022570981775159"
  using user_message_bucket_value by simp

text \<open>The same call: its \<open>bucketValue\<close> is not within a tenth of 0.4508281985373982.\<close>

theorem user_message_bucket_value_not_045:
  "map_option (\<lambda>r. \<bar>bucketValue r - 4508281985373982 / 10 ^ 16\<bar> < 1 / 10)
     (calculate_hash_value (py ''user-message'') (py ''user-123'')
        (py ''94b881a3be5c449d99dbbe1a92ca3fa0'')) = Some False"
  by (simp add: user_message_hash_info)

text \<open>
  C6. When one of the three strings is empty, \<open>calculate_hash_value\<close> returns \<open>None\<close>.
\<close>

theorem calculate_hash_value_empty:
  assumes "flag_key = [] \<or> context_key = [] \<or> salt' = []"
  shows "calculate_hash_value flag_key context_key salt' = None"
  using assms by (auto simp: calculate_hash_value_def)

theorem calculate_hash_value_empty_witness:
  "calculate_hash_value (py ''user-message'') [] (py ''salt'') = None \<and>
   calculate_hash_value [] (py ''user-123'') (py ''salt'') = None \<and>
   calculate_hash_value (py ''user-message'') (py ''user-123'') [] = None"
  using calculate_hash_value_empty [of "py ''user-message''" "[]" "py ''salt''"]
    calculate_hash_value_empty [of "[]" "py ''user-123''" "py ''salt''"]
    calculate_hash_value_empty [of "py ''user-message''" "py ''user-123''" "[]"]
  by simp


section \<open>Flag evaluation: the normalised reason\<close>

lemma map_of_optional_field:
  "map_of (optional_field rd k) k' =
     (if k' = k then
        (case map_of rd k of Some v \<Rightarrow> if v = PNone then None else Some v | None \<Rightarrow> None)
      else None)"
  by (simp add: optional_field_def split: option.splits)

lemma optional_field_Nil [simp]: "optional_field [] k = []"
  by (simp add: optional_field_def)

lemma reason_dict_of_simps [simp]:
  "reason_dict_of (PDict kvs) = kvs"
  "(\<forall>kvs. x \<noteq> PDict kvs) \<Longrightarrow> reason_dict_of x = []"
  by (auto simp: reason_dict_of_def split: pyval.splits)

lemma normalize_reason_fields:
  "\<exists>r. normalize_reason x = PDict r \<and>
     map_of r (py ''kind'') =
       Some (case map_of (reason_dict_of x) (py ''kind'') of
               Some v \<Rightarrow> v | None \<Rightarrow> PStr (py ''UNKNOWN'')) \<and>
     (\<forall>k \<in> {py ''ruleIndex'', py ''ruleId'', py ''errorKind''}.
        map_of r k =
          (case map_of (reason_dict_of x) k of
             Some v \<Rightarrow> if v = PNone then None else Some v
           | None \<Rightarrow> None)) \<and>
     dom (map_of r) \<subseteq> {py ''kind'', py ''ruleIndex'', py ''ruleId'', py ''errorKind''} \<and>
     ((\<forall>kvs. x \<noteq> PDict kvs) \<or> x = PDict [] \<longrightarrow>
        r = [(py ''kind'', PStr (py ''UNKNOWN''))])"
proof -
  define r where "r = [(py ''kind'',
             (case map_of (reason_dict_of x) (py ''kind'') of
                Some v \<Rightarrow> v
              | None \<Rightarrow> PStr (py ''UNKNOWN'')))]
           @ optional_field (reason_dict_of x) (py ''ruleIndex'')
           @ optional_field (reason_dict_of x) (py ''ruleId'')
           @ optional_field (reason_dict_of x) (py ''errorKind'')"
  have 1: "normalize_reason x = PDict r"
    by (simp add: normalize_reason_def r_def Let_def)
  have m: "map_of r k =
      (if k = py ''kind'' then
         Some (case map_of (reason_dict_of x) (py ''kind'') of
                 Some v \<Rightarrow> v | None \<Rightarrow> PStr (py ''UNKNOWN''))
       else if k \<in> {py ''ruleIndex'', py ''ruleId'', py ''errorKind''} then
         (case map_of (reason_dict_of x) k of
            Some v \<Rightarrow> if v = PNone then None else Some v
          | None \<Rightarrow> None)
       else None)" for k
    unfolding r_def
    by (simp add: map_of_optional_field map_add_def split: option.splits)
  have 2: "map_of r (py ''kind'') =
       Some (case map_of (reason_dict_of x) (py ''kind'') of
               Some v \<Rightarrow> v | None \<Rightarrow> PStr (py ''UNKNOWN''))"
    by (simp add: m)
  have 3: "\<forall>k \<in> {py ''ruleIndex'', py ''ruleId'', py ''errorKind''}.
        map_of r k =
          (case map_of (reason_dict_of x) k of
             Some v \<Rightarrow> if v = PNone then None else Some v
           | None \<Rightarrow> None)"
    by (simp add: m)
  have 4: "dom (map_of r) \<subseteq> {py ''kind'', py ''ruleIndex'', py ''ruleId'', py ''errorKind''}"
  proof
    fix k assume "k \<in> dom (map_of r)"
    then obtain v where "map_of r k = Some v" by blast
    then show "k \<in> {py ''kind'', py ''ruleIndex'', py ''ruleId'', py ''errorKind''}"
      unfolding m by (simp split: if_splits)
  qed
  have 5: "(\<forall>kvs. x \<noteq> PDict kvs) \<or> x = PDict [] \<longrightarrow> r = [(py ''kind'', PStr (py ''UNKNOWN''))]"
    by (auto simp: r_def)
  from 1 2 3 4 5 show ?thesis by blast
qed

text \<open>
  C7, as the code has it. On a successful evaluation the result carries the engine's
  value and a reason that always has the key \<open>kind\<close>: the engine's own \<open>kind\<close> when its
  reason is a dict with that key (whatever the value stored there, \<open>None\<close> included), and
  \<open>"UNKNOWN"\<close> when the reason is not a dict or has no such key. \<open>ruleIndex\<close>, \<open>ruleId\<close>
  and \<open>errorKind\<close> are present exactly when the engine's reason has them with a value
  other than \<open>None\<close>, and then with that value; there is no other key.
\<close>

theorem evaluate_flag_reason_normalized:
  assumes "is_sdk_initialized s" and "get_ld_client s = Some c"
    and "variation_detail c flag_key ctx default_value = Inr d"
  shows "\<exists>r. fst (evaluate_flag s flag_key ctx default_value) =
           Inr (PDict [(py ''value'', detail_value d), (py ''reason'', PDict r)]) \<and>
         map_of r (py ''kind'') =
           Some (case map_of (reason_dict_of (detail_reason d)) (py ''kind'') of
                   Some v \<Rightarrow> v | None \<Rightarrow> PStr (py ''UNKNOWN'')) \<and>
         (\<forall>k \<in> {py ''ruleIndex'', py ''ruleId'', py ''errorKind''}.
            map_of r k =
              (case map_of (reason_dict_of (detail_reason d)) k of
                 Some v \<Rightarrow> if v = PNone then None else Some v
               | None \<Rightarrow> None)) \<and>
         dom (map_of r) \<subseteq> {py ''kind'', py ''ruleIndex'', py ''ruleId'', py ''errorKind''} \<and>
         ((\<forall>kvs. detail_reason d \<noteq> PDict kvs) \<or> detail_reason d = PDict [] \<longrightarrow>
            r = [(py ''kind'', PStr (py ''UNKNOWN''))])"
proof -
  have "fst (evaluate_flag s flag_key ctx default_value) =
      Inr (PDict [(py ''value'', detail_value d),
                  (py ''reason'', normalize_reason (detail_reason d))])"
    using assms by (simp add: evaluate_flag_def Let_def)
  then show ?thesis
    using normalize_reason_fields [of "detail_reason d"] by auto
qed

theorem evaluate_flag_reason_normalized_witness:
  "fst (evaluate_flag (ready_state (answering_client (Inr rule_match_detail)))
          (py ''user-message'') (Multi []) (PStr (py ''Hello!''))) =
     Inr (PDict
       [(py ''value'', PStr (py ''Welcome back!'')),
        (py ''reason'', PDict
           [(py ''kind'', PStr (py ''RULE_MATCH'')), (py ''ruleIndex'', PInt 0)])]) \<and>
   (\<exists>r. fst (evaluate_flag (ready_state (answering_client (Inr rule_match_detail)))
          (py ''user-message'') (Multi []) (PStr (py ''Hello!''))) =
           Inr (PDict [(py ''value'', detail_value rule_match_detail), (py ''reason'', PDict r)]) \<and>
         map_of r (py ''kind'') = Some (PStr (py ''RULE_MATCH'')) \<and>
         map_of r (py ''ruleIndex'') = Some (PInt 0) \<and>
         map_of r (py ''ruleId'') = None \<and>
         map_of r (py ''errorKind'') = None)"
proof -
  have "\<exists>r. fst (evaluate_flag (ready_state (answering_client (Inr rule_match_detail)))
          (py ''user-message'') (Multi []) (PStr (py ''Hello!''))) =
           Inr (PDict [(py ''value'', detail_value rule_match_detail), (py ''reason'', PDict r)]) \<and>
         map_of r (py ''kind'') =
           Some (case map_of (reason_dict_of (detail_reason rule_match_detail)) (py ''kind'') of
                   Some v \<Rightarrow> v | None \<Rightarrow> PStr (py ''UNKNOWN'')) \<and>
         (\<forall>k \<in> {py ''ruleIndex'', py ''ruleId'', py ''errorKind''}.
            map_of r k =
              (case map_of (reason_dict_of (detail_reason rule_match_detail)) k of
                 Some v \<Rightarrow> if v = PNone then None else Some v
               | None \<Rightarrow> None)) \<and>
         dom (map_of r) \<subseteq> {py ''kind'', py ''ruleIndex'', py ''ruleId'', py ''errorKind''} \<and>
         ((\<forall>kvs. detail_reason rule_match_detail \<noteq> PDict kvs) \<or> detail_reason rule_match_detail = PDict [] \<longrightarrow>
            r = [(py ''kind'', PStr (py ''UNKNOWN''))])"
    by (rule evaluate_flag_reason_normalized
        [where c = "answering_client (Inr rule_match_detail)"]) simp_all
  then obtain r where r: "fst (evaluate_flag (ready_state (answering_client (Inr rule_match_detail)))
          (py ''user-message'') (Multi []) (PStr (py ''Hello!''))) =
           Inr (PDict [(py ''value'', detail_value rule_match_detail), (py ''reason'', PDict r)])"
     "map_of r (py ''kind'') = Some (PStr (py ''RULE_MATCH''))"
     "map_of r (py ''ruleIndex'') = Some (PInt 0)"
     "map_of r (py ''ruleId'') = None"
     "map_of r (py ''errorKind'') = None"
    by (auto simp: rule_match_detail_def)
  moreover have "fst (evaluate_flag (ready_state (answering_client (Inr rule_match_detail)))
          (py ''user-message'') (Multi []) (PStr (py ''Hello!''))) =
     Inr (PDict
       [(py ''value'', PStr (py ''Welcome back!'')),
        (py ''reason'', PDict
           [(py ''kind'', PStr (py ''RULE_MATCH'')), (py ''ruleIndex'', PInt 0)])])"
    by (simp add: evaluate_flag_def Let_def rule_match_detail_def normalize_reason_def
        optional_field_def)
  ultimately show ?thesis by blast
qed

text \<open>
  An engine whose reason is \<open>{"kind": None}\<close>: the \<open>kind\<close> of the result is \<open>None\<close>.
\<close>

theorem evaluate_flag_null_kind:
  "fst (evaluate_flag
          (ready_state (answering_client
             (Inr \<lparr>detail_value = PStr (py ''Hello!''),
                   detail_reason = PDict [(py ''kind'', PNone)]\<rparr>)))
          (py ''user-message'') (Multi []) (PStr (py ''Hello!''))) =
     Inr (PDict
       [(py ''value'', PStr (py ''Hello!'')),
        (py ''reason'', PDict [(py ''kind'', PNone)])])"
  by (simp add: evaluate_flag_def Let_def normalize_reason_def optional_field_def)


section \<open>Context creation: the key\<close>

lemma strip_Nil [simp]: "strip [] = []" by (simp add: strip_def)

lemma strip_spaces [simp]: "strip (py ''   '') = []"
  by (simp add: strip_def py_def is_space_def)

lemma py_Nil_iff [simp]: "py s = [] \<longleftrightarrow> s = []"
  by (simp add: py_def)

text \<open>
  C3, as the code has it. \<open>create_context\<close> raises \<open>ValueError\<close> when the key is
  \<open>None\<close>, empty or made of whitespace only, and \<open>buildContext\<close> raises \<open>ValueError\<close>
  when the dict has no key, or the key \<open>None\<close> or the empty string; both do so whatever
  the builder would do, which is therefore not asked for a context. \<open>buildContext\<close> does
  not trim the key: with any other string as the only entry, whitespace included, it
  builds the context with that very key.
\<close>

theorem missing_key_is_rejected:
  "(context_key = PNone \<or> (\<exists>k. context_key = PStr k \<and> strip k = []) \<longrightarrow>
      (\<exists>m. create_context builder context_key email name location =
         Inl (Exn ValueError m))) \<and>
   (map_of kvs (py ''key'') = None \<or> map_of kvs (py ''key'') = Some PNone \<or>
    map_of kvs (py ''key'') = Some (PStr []) \<longrightarrow>
      (\<exists>m. buildContext builder (PDict kvs) = Inl (Exn ValueError m))) \<and>
   (k' \<noteq> [] \<longrightarrow>
      buildContext ldclient_builder (PDict [(py ''key'', PStr k')]) =
        Inr (Multi
          [\<lparr>ctx_key = PStr k', ctx_kind = py ''user'', ctx_anonymous = False,
            ctx_attrs = []\<rparr>,
           container_context]))"
  by (auto simp: create_context_def buildContext_def Let_def ldclient_builder_def
      set_if_nonblank_def)

theorem missing_key_is_rejected_witness:
  "(\<exists>m. create_context ldclient_builder (PStr (py ''   '')) PNone PNone PNone =
         Inl (Exn ValueError m)) \<and>
   (\<exists>m. buildContext ldclient_builder (PDict [(py ''email'', PStr (py ''a@b.c''))]) =
         Inl (Exn ValueError m)) \<and>
   buildContext ldclient_builder (PDict [(py ''key'', PStr (py ''user-123''))]) =
     Inr (Multi
       [\<lparr>ctx_key = PStr (py ''user-123''), ctx_kind = py ''user'', ctx_anonymous = False,
         ctx_attrs = []\<rparr>,
        container_context])"
  using missing_key_is_rejected
    [where context_key = "PStr (py ''   '')" and builder = ldclient_builder
      and email = PNone and name = PNone and location = PNone
      and kvs = "[(py ''email'', PStr (py ''a@b.c''))]" and k' = "py ''user-123''"]
  by simp

text \<open>\<open>buildContext({"key": "   "})\<close> returns a context whose key is \<open>"   "\<close>.\<close>

theorem buildContext_whitespace_key:
  "buildContext ldclient_builder (PDict [(py ''key'', PStr (py ''   ''))]) =
     Inr (Multi
       [\<lparr>ctx_key = PStr (py ''   ''), ctx_kind = py ''user'', ctx_anonymous = False,
         ctx_attrs = []\<rparr>,
        container_context])"
  by (simp add: buildContext_def ldclient_builder_def set_if_nonblank_def)

section \<open>Context creation: empty attributes\<close>

lemma set_if_given_empty [simp]: "set_if_given a (Some []) = []" "set_if_given a None = []"
  by (simp_all add: set_if_given_def)

lemma optional_str_simps [simp]:
  "optional_str a PNone = Inr None" "optional_str a (PStr t) = Inr (Some t)"
  by (simp_all add: optional_str_def)

lemma strip_user_123 [simp]: "strip (py ''user-123'') = py ''user-123''"
  by (simp add: strip_def py_def is_space_def)

text \<open>
  C8, as the code has it. Neither entry point stores an empty string: \<open>create_context\<close>
  called with \<open>""\<close> for email, name or location does what it does with \<open>None\<close> there,
  and \<open>buildContext\<close> on a dict with \<open>""\<close> for one of the three does what it does on the
  dict without that entry.
\<close>

theorem empty_attribute_is_omitted:
  "create_context builder context_key (PStr []) name location =
     create_context builder context_key PNone name location \<and>
   create_context builder context_key email (PStr []) location =
     create_context builder context_key email PNone location \<and>
   create_context builder context_key email name (PStr []) =
     create_context builder context_key email name PNone \<and>
   (a \<in> {py ''email'', py ''name'', py ''location''} \<and> map_of kvs a = None \<longrightarrow>
      buildContext builder (PDict (kvs @ [(a, PStr [])])) = buildContext builder (PDict kvs))"
proof -
  have "buildContext builder (PDict (kvs @ [(a, PStr [])])) = buildContext builder (PDict kvs)"
    if "a \<in> {py ''email'', py ''name'', py ''location''}" "map_of kvs a = None"
    using that
    by (auto simp: buildContext_def Let_def map_add_def set_if_nonblank_def
        split: option.splits)
  moreover have "create_context builder context_key (PStr []) name location =
     create_context builder context_key PNone name location"
    by (simp add: create_context_def split: pyval.splits cong: sum.case_cong)
  moreover have "create_context builder context_key email (PStr []) location =
     create_context builder context_key email PNone location"
    by (simp add: create_context_def split: pyval.splits cong: sum.case_cong)
  moreover have "create_context builder context_key email name (PStr []) =
     create_context builder context_key email name PNone"
    by (simp add: create_context_def split: pyval.splits cong: sum.case_cong)
  ultimately show ?thesis
    by blast
qed

theorem empty_attribute_is_omitted_witness:
  "create_context ldclient_builder (PStr (py ''user-123'')) (PStr []) PNone PNone =
     create_context ldclient_builder (PStr (py ''user-123'')) PNone PNone PNone \<and>
   buildContext ldclient_builder (PDict ([(py ''key'', PStr (py ''user-123''))] @ [(py ''email'', PStr [])])) =
     buildContext ldclient_builder (PDict [(py ''key'', PStr (py ''user-123''))])"
  using empty_attribute_is_omitted
    [where builder = ldclient_builder and context_key = "PStr (py ''user-123'')"
      and email = PNone and name = PNone and location = PNone and a = "py ''email''"
      and kvs = "[(py ''key'', PStr (py ''user-123''))]"]
  by simp

text \<open>
  \<open>create_context("user-123", email="")\<close> returns a context with no attribute at all.
\<close>

theorem create_context_empty_email:
  "create_context ldclient_builder (PStr (py ''user-123'')) (PStr []) PNone PNone =
     Inr (Multi
       [\<lparr>ctx_key = PStr (py ''user-123''), ctx_kind = py ''user'', ctx_anonymous = False,
         ctx_attrs = []\<rparr>,
        container_context])"
  by (simp add: create_context_def ldclient_builder_def)


section \<open>The current context\<close>

lemma and_then_simps [simp]:
  "and_then (Inl e) f = Inl e" "and_then (Inr x) f = f x"
  by (simp_all add: and_then_def)

lemma and_then_Inr_iff: "and_then m f = Inr y \<longleftrightarrow> (\<exists>x. m = Inr x \<and> f x = Inr y)"
  by (cases m) simp_all

lemma is_multi_context_startup: "is_multi_context (startup_context uuid)"
  by (simp add: is_multi_context_def startup_context_def container_dict_def anonymous_key_def)

lemma is_multi_context_truthy: "is_multi_context c \<Longrightarrow> truthy c"
  by (auto simp: is_multi_context_def split: pyval.splits)

lemma is_blank_False: "is_blank v = Inr False \<Longrightarrow> \<exists>t. v = PStr t \<and> t \<noteq> []"
  by (auto simp: is_blank_def py_strip_def and_then_Inr_iff split: if_splits pyval.splits)

lemma custom_context_multi:
  assumes "custom_context (PStr t) name location = Inr c" and "t \<noteq> []"
  shows "is_multi_context c"
  using assms
  by (auto simp: custom_context_def and_then_Inr_iff is_multi_context_def container_dict_def)

lemma startswith_nonempty:
  "py_startswith key (py ''python-anon-'') = Inr True \<Longrightarrow> \<exists>k. key = PStr k \<and> k \<noteq> []"
  by (auto simp: py_startswith_def py_def split: pyval.splits)

lemma anonymous_key_nonempty [simp]: "anonymous_key uuid \<noteq> []"
  by (simp add: anonymous_key_def)

lemma existing_key:
  assumes "needs_new_key current = Inr False"
    and "py_get current (py ''user'') (PDict []) = Inr user"
    and "py_get user (py ''key'') dflt = Inr key"
  shows "\<exists>k. key = PStr k \<and> k \<noteq> []"
proof -
  from assms(1,2) obtain key' where k: "py_get user (py ''key'') (PStr []) = Inr key'"
     "py_startswith key' (py ''python-anon-'') = Inr True"
    by (auto simp: needs_new_key_def and_then_Inr_iff split: if_splits)
  then obtain k where "key' = PStr k" "k \<noteq> []" using startswith_nonempty by blast
  moreover have "key = key'"
    using k(1) assms(3) \<open>key' = PStr k\<close> \<open>k \<noteq> []\<close>
    by (cases user) (auto split: option.splits)
  ultimately show ?thesis by simp
qed

lemma anonymous_context_multi:
  assumes "anonymous_context current uuid location = Inr c"
  shows "is_multi_context c"
proof -
  from assms obtain new_key context_key has_location where
    n: "needs_new_key current = Inr new_key"
    and k: "(if new_key then Inr (PStr (anonymous_key uuid))
        else
          and_then (py_get current (py ''user'') (PDict [])) (\<lambda>user.
            py_get user (py ''key'') (PStr (anonymous_key uuid)))) = Inr context_key"
    and c: "c = PDict
         [(py ''kind'', PStr (py ''multi'')),
          (py ''user'', PDict
             ([(py ''kind'', PStr (py ''user'')),
               (py ''key'', context_key),
               (py ''anonymous'', PBool True)]
              @ (if has_location then [(py ''location'', location)] else []))),
          (py ''container'', container_dict)]"
    unfolding anonymous_context_def and_then_Inr_iff by blast
  have "\<exists>k. context_key = PStr k \<and> k \<noteq> []"
  proof (cases new_key)
    case True
    then show ?thesis using k by auto
  next
    case False
    then show ?thesis using k n existing_key
      by (auto simp: and_then_Inr_iff)
  qed
  then show ?thesis
    by (auto simp: c is_multi_context_def container_dict_def)
qed

lemma new_context_multi:
  assumes "new_context current body uuid = Inr (Updated c)"
  shows "is_multi_context c"
proof -
  from assms obtain data context_type email name location where
    body: "(if context_type = PStr (py ''custom'') then
         and_then (is_blank email) (\<lambda>blank.
           if blank then Inr Rejected
           else and_then (custom_context email name location) (\<lambda>c. Inr (Updated c)))
       else
         and_then (anonymous_context current uuid location) (\<lambda>c. Inr (Updated c))) = Inr (Updated c)"
    unfolding new_context_def and_then_Inr_iff by blast
  show ?thesis
  proof (cases "context_type = PStr (py ''custom'')")
    case True
    with body obtain blank where b: "is_blank email = Inr blank"
      "(if blank then Inr Rejected
           else and_then (custom_context email name location) (\<lambda>c. Inr (Updated c))) = Inr (Updated c)"
      by (auto simp: and_then_Inr_iff)
    then have nb: "\<not> blank" by (auto split: if_splits)
    with b(1) have "is_blank email = Inr False" by simp
    then obtain t where "email = PStr t" "t \<noteq> []" using is_blank_False by blast
    moreover have "custom_context email name location = Inr c"
      using b(2) nb by (auto simp: and_then_Inr_iff)
    ultimately show ?thesis using custom_context_multi by blast
  next
    case False
    with body have "anonymous_context current uuid location = Inr c"
      by (auto simp: and_then_Inr_iff)
    then show ?thesis by (rule anonymous_context_multi)
  qed
qed

lemma context_endpoint_multi:
  assumes "is_multi_context (current_context s)"
  shows "is_multi_context (current_context (snd (context_endpoint s verb body uuid)))"
  using assms new_context_multi [of "current_context s" body uuid]
  by (auto simp: context_endpoint_def split: http_method.splits sum.splits update.splits)

lemma after_requests_multi:
  "is_multi_context (current_context s) \<Longrightarrow>
   is_multi_context (current_context (after_requests s requests))"
proof (induction requests arbitrary: s)
  case Nil
  then show ?case by simp
next
  case (Cons r rest)
  obtain verb body uuid where r: "r = (verb, body, uuid)" by (cases r) auto
  show ?case
    unfolding r after_requests.simps
    by (rule Cons.IH) (rule context_endpoint_multi [OF Cons.prems])
qed

lemma flag_endpoint_context_found:
  assumes "truthy (current_context s)"
  shows "flag_endpoint_context s contextKey email name location \<noteq> Inr MissingParameter"
  using assms
  by (auto simp: flag_endpoint_context_def and_then_Inr_iff split: if_splits)


text \<open>
  C10. From the globals of the module's start, whatever the state of the client, and after
  any sequence of requests to the context endpoint (any verb, any body, any fresh
  uuid), the current context is a dict of kind \<open>multi\<close> with a \<open>user\<close> sub-context whose
  key is a non-empty string and a \<open>container\<close> sub-context whose key is \<open>python-app\<close>;
  and the flag endpoint, whatever its query parameters, does not answer
  \<open>MISSING_PARAMETER\<close>.
\<close>

theorem current_context_stays_multi:
  assumes "current_context s = startup_context uuid"
  shows "is_multi_context (current_context (after_requests s requests)) \<and>
    (\<forall>contextKey email name location.
       flag_endpoint_context (after_requests s requests) contextKey email name location
         \<noteq> Inr MissingParameter)"
proof -
  have "is_multi_context (current_context s)"
    using assms is_multi_context_startup by simp
  then have "is_multi_context (current_context (after_requests s requests))"
    by (rule after_requests_multi)
  then show ?thesis
    using is_multi_context_truthy flag_endpoint_context_found by blast
qed

theorem current_context_stays_multi_witness:
  "current_context (after_requests (startup_state (py ''0'')) context_requests) =
     PDict
       [(py ''kind'', PStr (py ''multi'')),
        (py ''user'', PDict
           [(py ''kind'', PStr (py ''user'')),
            (py ''key'', PStr (anonymous_key (py ''2''))),
            (py ''anonymous'', PBool True)]),
        (py ''container'', container_dict)] \<and>
   is_multi_context (current_context (after_requests (startup_state (py ''0'')) context_requests)) \<and>
   (\<forall>contextKey email name location.
       flag_endpoint_context (after_requests (startup_state (py ''0'')) context_requests)
         contextKey email name location \<noteq> Inr MissingParameter)"
proof -
  have "strip (py ''a@b.c'') = py ''a@b.c''"
    by (simp add: strip_def py_def is_space_def)
  then have "current_context (after_requests (startup_state (py ''0'')) context_requests) =
     PDict
       [(py ''kind'', PStr (py ''multi'')),
        (py ''user'', PDict
           [(py ''kind'', PStr (py ''user'')),
            (py ''key'', PStr (anonymous_key (py ''2''))),
            (py ''anonymous'', PBool True)]),
        (py ''container'', container_dict)]"
    by (simp add: context_requests_def startup_state_def context_endpoint_def
        new_context_def is_blank_def is_nonblank_def py_strip_def custom_context_def
        anonymous_context_def needs_new_key_def)
  then show ?thesis
    using current_context_stays_multi
      [of "startup_state (py ''0'')" "py ''0''" context_requests]
    by (simp add: startup_state_def)
qed

end
